theory Spec2Isabelle
  imports
    Complex_Main
    "HOL-Library.Log_Nat"
    "HOL-Library.AList"
    "HOL-Library.Option_ord"
    "HOL-Library.Sublist"
    "HOL-Library.Multiset"
begin

section \<open>Python floats (IEEE 754 binary64) as the rationals they denote\<close>

text \<open>
  Both modules convert the payload's integer millisecond timestamp with
  \<^verbatim>\<open>document["timestamp"]/1000\<close>, Python's true division, whose result is a
  \<^verbatim>\<open>float\<close>; the query path multiplies a \<^verbatim>\<open>float\<close> by 1000 and truncates it with
  \<^verbatim>\<open>int(...)\<close>. A finite binary64 value is a rational number, so a Python float is
  modelled by the rational it denotes, and every arithmetic operation returns the exact
  result rounded to the nearest representable value, ties to the even significand
  (53 significant bits, smallest exponent \<open>-1074\<close>).
\<close>

type_synonym py_float = rat

definition pow2 :: "int \<Rightarrow> rat" where
  "pow2 k = (if 0 \<le> k then 2 ^ nat k else 1 / 2 ^ nat (- k))"

text \<open>\<open>ilog2 x\<close> is the binade of a positive \<open>x\<close>: the \<open>e\<close> with \<open>2 ^ e \<le> x < 2 ^ (e + 1)\<close>.\<close>

definition ilog2 :: "rat \<Rightarrow> int" where
  "ilog2 x = (if 1 \<le> x then bitlen \<lfloor>x\<rfloor> - 1 else - bitlen (\<lceil>1 / x\<rceil> - 1))"

definition round_half_even :: "rat \<Rightarrow> int" where
  "round_half_even x =
     (let f = \<lfloor>x\<rfloor>; d = x - of_int f
      in if d < 1 / 2 then f
         else if 1 / 2 < d then f + 1
         else if even f then f else f + 1)"

definition fl_exponent :: "rat \<Rightarrow> int" where
  "fl_exponent x = max (ilog2 \<bar>x\<bar> - 52) (- 1074)"

definition fl :: "rat \<Rightarrow> py_float" where
  "fl x = (if x = 0 then 0
           else of_int (round_half_even (x / pow2 (fl_exponent x))) * pow2 (fl_exponent x))"

text \<open>\<^verbatim>\<open>int(x)\<close> on a float truncates towards zero.\<close>

definition py_int :: "py_float \<Rightarrow> int" where
  "py_int x = (if 0 \<le> x then \<lfloor>x\<rfloor> else \<lceil>x\<rceil>)"

section \<open>Exceptions\<close>

text \<open>
  Every handler wraps its body in \<^verbatim>\<open>try: ... except Exception as e:\<close>, so each
  exception the body can raise is a value. \<^verbatim>\<open>HTTPException\<close> (a subclass of
  \<^verbatim>\<open>Exception\<close>) carries a status code and a detail; the other constructors carry the
  message that \<^verbatim>\<open>str(e)\<close> returns.
\<close>

datatype exn =
    HTTPException nat string
  | ValueError string
  | OverflowError string
  | ZeroDivisionError string
  | KeyError string
  | TypeError string
  | PyMongoError string

fun str_nat :: "nat \<Rightarrow> string" where
  "str_nat n =
     (if n < 10 then [char_of (48 + n)]
      else str_nat (n div 10) @ [char_of (48 + n mod 10)])"

declare str_nat.simps [simp del]

text \<open>
  \<^verbatim>\<open>str(e)\<close>. For an \<^verbatim>\<open>HTTPException\<close> it is \<^verbatim>\<open>f"{status_code}: {detail}"\<close>
  (the framework's \<^verbatim>\<open>__str__\<close>); for \<^verbatim>\<open>KeyError\<close> it is the \<^verbatim>\<open>repr\<close> of the key.
\<close>

fun str_exn :: "exn \<Rightarrow> string" where
  "str_exn (HTTPException sc detail) = str_nat sc @ '': '' @ detail"
| "str_exn (ValueError m) = m"
| "str_exn (OverflowError m) = m"
| "str_exn (ZeroDivisionError m) = m"
| "str_exn (KeyError k) = [CHR 0x27] @ k @ [CHR 0x27]"
| "str_exn (TypeError m) = m"
| "str_exn (PyMongoError m) = m"

definition HTTP_201_CREATED :: nat where "HTTP_201_CREATED = 201"
definition HTTP_404_NOT_FOUND :: nat where "HTTP_404_NOT_FOUND = 404"
definition HTTP_500_INTERNAL_SERVER_ERROR :: nat where "HTTP_500_INTERNAL_SERVER_ERROR = 500"

section \<open>Timestamps\<close>

text \<open>
  A naive \<^verbatim>\<open>datetime\<close> is the number of microseconds since 1970-01-01T00:00:00; a
  \<^verbatim>\<open>timedelta\<close> is a number of microseconds. The type covers the years 1 to 9999.
\<close>

type_synonym datetime = int
type_synonym timedelta = int

definition datetime_min :: datetime where
  "datetime_min = - 62135596800 * 1000000"

definition datetime_max :: datetime where
  "datetime_max = 253402300800 * 1000000 - 1"

text \<open>
  \<^verbatim>\<open>a / b\<close> on two ints: the correctly rounded quotient, or an exception. A rounded
  quotient of magnitude \<open>2 ^ 1024\<close> or more, that is of binade 1024 or more, is not a
  finite float.
\<close>

definition py_truediv :: "int \<Rightarrow> int \<Rightarrow> exn + py_float" where
  "py_truediv a b =
     (if b = 0 then Inl (ZeroDivisionError ''division by zero'')
      else let r = fl (of_int a / of_int b)
           in if 1024 \<le> ilog2 \<bar>r\<bar>
              then Inl (OverflowError ''integer division result too large for a float'')
              else Inr r)"

text \<open>
  \<^verbatim>\<open>x * n\<close> on a float and an int. The only use multiplies the seconds of a
  \<^verbatim>\<open>timedelta\<close> between two datetimes by 1000, far below the overflow threshold.
\<close>

definition py_float_mul :: "py_float \<Rightarrow> int \<Rightarrow> py_float" where
  "py_float_mul x n = fl (x * of_int n)"

text \<open>
  \<^verbatim>\<open>datetime.utcfromtimestamp(d)\<close> on a float: the seconds are split into integral and
  fractional part (exactly), the fraction is scaled to microseconds in floating point and
  rounded half to even, a carry into the seconds is propagated, and a result outside the
  years 1 to 9999 raises.
\<close>

definition utcfromtimestamp :: "py_float \<Rightarrow> exn + datetime" where
  "utcfromtimestamp d =
     (let intpart = py_int d;
          floatpart = round_half_even (fl ((d - of_int intpart) * 1000000));
          sec = (if 1000000 \<le> floatpart then intpart + 1
                 else if floatpart < 0 then intpart - 1 else intpart);
          us = (if 1000000 \<le> floatpart then floatpart - 1000000
                else if floatpart < 0 then floatpart + 1000000 else floatpart);
          dt = sec * 1000000 + us
      in if datetime_min \<le> dt \<and> dt \<le> datetime_max then Inr dt
         else Inl (ValueError ''year is out of range''))"

definition epoch :: datetime where
  "epoch = 0"

text \<open>\<^verbatim>\<open>td.total_seconds()\<close>: the microseconds divided by \<open>10^6\<close>, a true division.\<close>

definition total_seconds :: "timedelta \<Rightarrow> py_float" where
  "total_seconds td = fl (of_int td / 1000000)"

text \<open>
  The store keeps a datetime as a 64-bit count of milliseconds: the microseconds below
  a whole millisecond are dropped on the way in.
\<close>

definition bson_datetime :: "datetime \<Rightarrow> datetime" where
  "bson_datetime dt = (dt div 1000) * 1000"


section \<open>Values and documents\<close>

text \<open>
  A Python \<^verbatim>\<open>dict\<close> with string keys is an association list in insertion order.
  \<open>VStrOf v\<close> stands for the string \<^verbatim>\<open>str(v)\<close> of a value whose rendering is left
  symbolic (floats, datetimes, dicts); the identifiers this service handles are
  \<^verbatim>\<open>ObjectId\<close>s, whose string form is their 24 hexadecimal digits.
\<close>

datatype pyvalue =
    VInt int
  | VFloat py_float
  | VStr string
  | VDatetime datetime
  | VObjectId nat
  | VDict "(string \<times> pyvalue) list"
  | VStrOf pyvalue

type_synonym document = "(string \<times> pyvalue) list"

definition hex_char :: "nat \<Rightarrow> char" where
  "hex_char n = (if n < 10 then char_of (48 + n) else char_of (87 + n))"

primrec hex_digits :: "nat \<Rightarrow> nat \<Rightarrow> string" where
  "hex_digits 0 n = []"
| "hex_digits (Suc k) n = hex_digits k (n div 16) @ [hex_char (n mod 16)]"

definition str_ObjectId :: "nat \<Rightarrow> string" where
  "str_ObjectId n = hex_digits 24 n"

fun py_str :: "pyvalue \<Rightarrow> pyvalue" where
  "py_str (VObjectId n) = VStr (str_ObjectId n)"
| "py_str (VStr s) = VStr s"
| "py_str (VStrOf v) = VStrOf v"
| "py_str v = VStrOf v"

section \<open>Payload models\<close>

record TrafficValues =
  peaton :: int
  bicicleta :: int
  carro :: int
  moto :: int
  bus :: int
  camion :: int

record EnvironmentalValues =
  solarRadiationMax :: int
  solarRadiationMin :: int
  solarRadiationAvg :: int
  uvIndexMax :: py_float
  uvIndexMin :: py_float
  uvIndexAvg :: py_float
  temperatureMax :: py_float
  temperatureMin :: py_float
  temperatureAvg :: py_float
  humidityMax :: py_float
  humidityMin :: py_float
  humidityAvg :: py_float

record WeatherValues =
  rainTicks :: py_float
  windSpeedMax :: int
  windSpeedMin :: int
  windSpeedAvg :: int
  windDirectionAvg :: int

record AirQualityValues =
  massPM2_5Max :: py_float
  massPM2_5Min :: py_float
  massPM2_5Avg :: py_float
  massPM10_0Max :: py_float
  massPM10_0Min :: py_float
  massPM10_0Avg :: py_float
  noiseMax :: py_float
  noiseMin :: py_float
  noiseAvg :: py_float

text \<open>
  \<^verbatim>\<open>BaseSensorData\<close> and its four subclasses, which differ in the class of
  \<^verbatim>\<open>values\<close> only. The models of \<^verbatim>\<open>main.py\<close> have the same fields (it has no
  traffic model).
\<close>

record 'v BaseSensorData =
  deviceId :: string
  timestamp :: int
  "values" :: 'v

type_synonym TrafficData = "TrafficValues BaseSensorData"
type_synonym EnvironmentalData = "EnvironmentalValues BaseSensorData"
type_synonym WeatherData = "WeatherValues BaseSensorData"
type_synonym AirQualityData = "AirQualityValues BaseSensorData"

definition TrafficValues_dict :: "TrafficValues \<Rightarrow> document" where
  "TrafficValues_dict v =
     [(''peaton'', VInt (peaton v)), (''bicicleta'', VInt (bicicleta v)),
      (''carro'', VInt (carro v)), (''moto'', VInt (moto v)),
      (''bus'', VInt (bus v)), (''camion'', VInt (camion v))]"

definition EnvironmentalValues_dict :: "EnvironmentalValues \<Rightarrow> document" where
  "EnvironmentalValues_dict v =
     [(''solarRadiationMax'', VInt (solarRadiationMax v)),
      (''solarRadiationMin'', VInt (solarRadiationMin v)),
      (''solarRadiationAvg'', VInt (solarRadiationAvg v)),
      (''uvIndexMax'', VFloat (uvIndexMax v)), (''uvIndexMin'', VFloat (uvIndexMin v)),
      (''uvIndexAvg'', VFloat (uvIndexAvg v)),
      (''temperatureMax'', VFloat (temperatureMax v)),
      (''temperatureMin'', VFloat (temperatureMin v)),
      (''temperatureAvg'', VFloat (temperatureAvg v)),
      (''humidityMax'', VFloat (humidityMax v)), (''humidityMin'', VFloat (humidityMin v)),
      (''humidityAvg'', VFloat (humidityAvg v))]"

definition WeatherValues_dict :: "WeatherValues \<Rightarrow> document" where
  "WeatherValues_dict v =
     [(''rainTicks'', VFloat (rainTicks v)), (''windSpeedMax'', VInt (windSpeedMax v)),
      (''windSpeedMin'', VInt (windSpeedMin v)), (''windSpeedAvg'', VInt (windSpeedAvg v)),
      (''windDirectionAvg'', VInt (windDirectionAvg v))]"

definition AirQualityValues_dict :: "AirQualityValues \<Rightarrow> document" where
  "AirQualityValues_dict v =
     [(''massPM2_5Max'', VFloat (massPM2_5Max v)), (''massPM2_5Min'', VFloat (massPM2_5Min v)),
      (''massPM2_5Avg'', VFloat (massPM2_5Avg v)),
      (''massPM10_0Max'', VFloat (massPM10_0Max v)),
      (''massPM10_0Min'', VFloat (massPM10_0Min v)),
      (''massPM10_0Avg'', VFloat (massPM10_0Avg v)),
      (''noiseMax'', VFloat (noiseMax v)), (''noiseMin'', VFloat (noiseMin v)),
      (''noiseAvg'', VFloat (noiseAvg v))]"

text \<open>\<^verbatim>\<open>data.dict()\<close>; the first argument is the \<^verbatim>\<open>dict()\<close> of the class of \<^verbatim>\<open>values\<close>.\<close>

definition dict :: "('v \<Rightarrow> document) \<Rightarrow> 'v BaseSensorData \<Rightarrow> document" where
  "dict values_dict data =
     [(''deviceId'', VStr (deviceId data)),
      (''timestamp'', VInt (timestamp data)),
      (''values'', VDict (values_dict (values data)))]"


section \<open>The document store\<close>

text \<open>
  The module-level \<^verbatim>\<open>collection\<close> is the state that the handlers share. It holds the
  stored documents in insertion order, the source of fresh identifiers, and whether the
  server can be reached (every operation that talks to it raises when it cannot).
\<close>

record collection =
  docs :: "document list"
  next_id :: nat
  available :: bool

text \<open>
  What the wire format does to a value: an int must fit 64 bits, a datetime keeps
  milliseconds only.
\<close>

primrec bson_encodable :: "pyvalue \<Rightarrow> bool" where
  "bson_encodable (VInt i) = (- (2 ^ 63) \<le> i \<and> i < 2 ^ 63)"
| "bson_encodable (VFloat x) = True"
| "bson_encodable (VStr s) = True"
| "bson_encodable (VDatetime dt) = True"
| "bson_encodable (VObjectId n) = True"
| "bson_encodable (VDict kvs) = list_all snd (map (map_prod id bson_encodable) kvs)"
| "bson_encodable (VStrOf v) = True"

primrec bson_value :: "pyvalue \<Rightarrow> pyvalue" where
  "bson_value (VInt i) = VInt i"
| "bson_value (VFloat x) = VFloat x"
| "bson_value (VStr s) = VStr s"
| "bson_value (VDatetime dt) = VDatetime (bson_datetime dt)"
| "bson_value (VObjectId n) = VObjectId n"
| "bson_value (VDict kvs) = VDict (map (map_prod id bson_value) kvs)"
| "bson_value (VStrOf v) = VStrOf v"

definition server_unreachable :: exn where
  "server_unreachable = PyMongoError ''No servers found yet''"

text \<open>
  \<^verbatim>\<open>collection.insert_one(document)\<close>: a document without \<^verbatim>\<open>_id\<close> gets a fresh
  \<^verbatim>\<open>ObjectId\<close> as its first field; an \<^verbatim>\<open>_id\<close> already stored is refused. Nothing
  is written when the call raises.
\<close>

definition insert_one :: "document \<Rightarrow> collection \<Rightarrow> exn + collection" where
  "insert_one document c =
     (let doc = (case map_of document ''_id'' of
                   None \<Rightarrow> (''_id'', VObjectId (next_id c)) # document
                 | Some v \<Rightarrow> document)
      in if \<not> available c then Inl server_unreachable
         else if \<not> list_all (bson_encodable \<circ> snd) doc
         then Inl (OverflowError ''MongoDB can only handle up to 8-byte ints'')
         else if list_ex (\<lambda>d. map_of d ''_id'' = map_of doc ''_id'') (docs c)
         then Inl (PyMongoError ''E11000 duplicate key error'')
         else Inr (c\<lparr>docs := docs c @ [map (map_prod id bson_value) doc],
                    next_id := Suc (next_id c)\<rparr>))"

text \<open>\<^verbatim>\<open>collection.find({"deviceId": deviceId})\<close>: the documents a cursor would yield.\<close>

definition collection_find :: "string \<Rightarrow> collection \<Rightarrow> document list" where
  "collection_find device c = filter (\<lambda>d. map_of d ''deviceId'' = Some (VStr device)) (docs c)"

text \<open>
  \<^verbatim>\<open>.sort("timestamp", -1)\<close>: descending by the stored datetime; a document without
  one sorts last. The order among equal timestamps is the store's choice; here it is the
  reverse of insertion order.
\<close>

definition timestamp_key :: "document \<Rightarrow> datetime option" where
  "timestamp_key d = (case map_of d ''timestamp'' of Some (VDatetime dt) \<Rightarrow> Some dt | _ \<Rightarrow> None)"

definition sort_timestamp_desc :: "document list \<Rightarrow> document list" where
  "sort_timestamp_desc xs = rev (sort_key timestamp_key xs)"

text \<open>\<^verbatim>\<open>.limit(n)\<close>: 0 means no limit, a negative \<open>n\<close> limits to \<open>-n\<close>.\<close>

definition limit_cursor :: "int \<Rightarrow> document list \<Rightarrow> document list" where
  "limit_cursor n xs = (if n = 0 then xs else take (nat \<bar>n\<bar>) xs)"

text \<open>
  \<^verbatim>\<open>await cursor.to_list(length=n)\<close>: refuses a negative length before it talks to the
  server, sends the query (whose limit must fit 64 bits), and stops as soon as it holds
  \<open>n\<close> documents.
\<close>

definition to_list :: "collection \<Rightarrow> document list \<Rightarrow> int \<Rightarrow> exn + document list" where
  "to_list c cursor n =
     (if n < 0 then Inl (ValueError ''length must be non-negative'')
      else if \<not> available c then Inl server_unreachable
      else if 2 ^ 63 \<le> n then Inl (OverflowError ''MongoDB can only handle up to 8-byte ints'')
      else Inr (take (nat n) cursor))"

section \<open>The application \<^verbatim>\<open>app_main.py\<close>\<close>

text \<open>
  A handler returns its value and the collection after it, or raises; a handler that
  raises leaves the collection as it was.
\<close>

definition insert_sensor_data ::
  "('v \<Rightarrow> document) \<Rightarrow> 'v BaseSensorData \<Rightarrow> string \<Rightarrow> collection
     \<Rightarrow> exn + (document \<times> collection)" where
  "insert_sensor_data values_dict data data_type c =
     (let document = dict values_dict data
      in case py_truediv (timestamp data) 1000 of
           Inl e \<Rightarrow> Inl e
         | Inr secs \<Rightarrow>
             (case utcfromtimestamp secs of
                Inl e \<Rightarrow> Inl e
              | Inr dt \<Rightarrow>
                  (let document = AList.update ''data_type'' (VStr data_type)
                                    (AList.update ''timestamp'' (VDatetime dt) document)
                   in case insert_one document c of
                        Inl e \<Rightarrow> Inl e
                      | Inr c' \<Rightarrow>
                          Inr ([(''status'', VStr ''success''),
                                (''deviceId'', VStr (deviceId data))], c'))))"

text \<open>
  \<^verbatim>\<open>try: return await insert_sensor_data(data, ...) except Exception as e: raise
  HTTPException(status_code=500, detail=str(e))\<close>, the body of the four POST handlers.
\<close>

definition receive_traffic_data ::
  "TrafficData \<Rightarrow> collection \<Rightarrow> exn + (document \<times> collection)" where
  "receive_traffic_data data c =
     (case insert_sensor_data TrafficValues_dict data ''traffic'' c of
        Inr r \<Rightarrow> Inr r
      | Inl e \<Rightarrow> Inl (HTTPException HTTP_500_INTERNAL_SERVER_ERROR (str_exn e)))"

definition receive_environmental_data ::
  "EnvironmentalData \<Rightarrow> collection \<Rightarrow> exn + (document \<times> collection)" where
  "receive_environmental_data data c =
     (case insert_sensor_data EnvironmentalValues_dict data ''environmental'' c of
        Inr r \<Rightarrow> Inr r
      | Inl e \<Rightarrow> Inl (HTTPException HTTP_500_INTERNAL_SERVER_ERROR (str_exn e)))"

definition receive_weather_data ::
  "WeatherData \<Rightarrow> collection \<Rightarrow> exn + (document \<times> collection)" where
  "receive_weather_data data c =
     (case insert_sensor_data WeatherValues_dict data ''weather'' c of
        Inr r \<Rightarrow> Inr r
      | Inl e \<Rightarrow> Inl (HTTPException HTTP_500_INTERNAL_SERVER_ERROR (str_exn e)))"

definition receive_airquality_data ::
  "AirQualityData \<Rightarrow> collection \<Rightarrow> exn + (document \<times> collection)" where
  "receive_airquality_data data c =
     (case insert_sensor_data AirQualityValues_dict data ''air_quality'' c of
        Inr r \<Rightarrow> Inr r
      | Inl e \<Rightarrow> Inl (HTTPException HTTP_500_INTERNAL_SERVER_ERROR (str_exn e)))"

text \<open>
  The loop of \<^verbatim>\<open>get_device_data\<close> over \<^verbatim>\<open>results\<close>: each item gets its \<^verbatim>\<open>_id\<close>
  replaced by \<^verbatim>\<open>str(item["_id"])\<close> and its \<^verbatim>\<open>timestamp\<close> by
  \<^verbatim>\<open>int((dt - epoch).total_seconds() * 1000)\<close>. A missing key raises, and so does
  subtracting a datetime from a value that is not one.
\<close>

definition convert_item :: "document \<Rightarrow> exn + document" where
  "convert_item item =
     (case map_of item ''_id'' of
        None \<Rightarrow> Inl (KeyError ''_id'')
      | Some oid \<Rightarrow>
          (let item = AList.update ''_id'' (py_str oid) item
           in case map_of item ''timestamp'' of
                None \<Rightarrow> Inl (KeyError ''timestamp'')
              | Some (VDatetime dt) \<Rightarrow>
                  Inr (AList.update ''timestamp''
                         (VInt (py_int (py_float_mul (total_seconds (dt - epoch)) 1000))) item)
              | Some v \<Rightarrow> Inl (TypeError ''unsupported operand type(s) for -'')))"

fun convert_items :: "document list \<Rightarrow> exn + document list" where
  "convert_items [] = Inr []"
| "convert_items (item # results) =
     (case convert_item item of
        Inl e \<Rightarrow> Inl e
      | Inr item' \<Rightarrow>
          (case convert_items results of
             Inl e \<Rightarrow> Inl e
           | Inr results' \<Rightarrow> Inr (item' # results')))"

text \<open>The statements inside \<^verbatim>\<open>try:\<close> of \<^verbatim>\<open>get_device_data\<close>.\<close>

definition get_device_data_try :: "collection \<Rightarrow> string \<Rightarrow> int \<Rightarrow> exn + document list" where
  "get_device_data_try c device limit =
     (let cursor = limit_cursor limit (sort_timestamp_desc (collection_find device c))
      in case to_list c cursor limit of
           Inl e \<Rightarrow> Inl e
         | Inr results \<Rightarrow>
             if results = []
             then Inl (HTTPException HTTP_404_NOT_FOUND ''Dispositivo no encontrado'')
             else convert_items results)"

text \<open>
  \<^verbatim>\<open>get_device_data(deviceId, limit=100)\<close>: \<open>None\<close> is the call without \<^verbatim>\<open>limit\<close>.
  The \<^verbatim>\<open>except Exception\<close> clause encloses the whole body.
\<close>

definition get_device_data :: "collection \<Rightarrow> string \<Rightarrow> int option \<Rightarrow> exn + document list" where
  "get_device_data c device limit =
     (case get_device_data_try c device (case limit of None \<Rightarrow> 100 | Some n \<Rightarrow> n) of
        Inr results \<Rightarrow> Inr results
      | Inl e \<Rightarrow> Inl (HTTPException HTTP_500_INTERNAL_SERVER_ERROR (str_exn e)))"


section \<open>The application \<^verbatim>\<open>main.py\<close>\<close>

text \<open>
  Its three POST handlers have the same body, up to the model class of the payload:
  \<^verbatim>\<open>document = data.dict()\<close>, the assignment to \<^verbatim>\<open>document["timestamp"]\<close>,
  \<^verbatim>\<open>insert_one\<close>, and the acknowledgement. These are the statements inside \<^verbatim>\<open>try:\<close>.
\<close>

definition main_receive_try ::
  "('v \<Rightarrow> document) \<Rightarrow> 'v BaseSensorData \<Rightarrow> collection \<Rightarrow> exn + (document \<times> collection)" where
  "main_receive_try values_dict data c =
     (let document = dict values_dict data
      in case py_truediv (timestamp data) 1000 of
           Inl e \<Rightarrow> Inl e
         | Inr secs \<Rightarrow>
             (case utcfromtimestamp secs of
                Inl e \<Rightarrow> Inl e
              | Inr dt \<Rightarrow>
                  (let document = AList.update ''timestamp'' (VDatetime dt) document
                   in case insert_one document c of
                        Inl e \<Rightarrow> Inl e
                      | Inr c' \<Rightarrow>
                          Inr ([(''status'', VStr ''success''),
                                (''deviceId'', VStr (deviceId data))], c'))))"

definition main_receive_environmental_data ::
  "EnvironmentalData \<Rightarrow> collection \<Rightarrow> exn + (document \<times> collection)" where
  "main_receive_environmental_data data c =
     (case main_receive_try EnvironmentalValues_dict data c of
        Inr r \<Rightarrow> Inr r
      | Inl e \<Rightarrow> Inl (HTTPException 500 (str_exn e)))"

definition main_receive_weather_data ::
  "WeatherData \<Rightarrow> collection \<Rightarrow> exn + (document \<times> collection)" where
  "main_receive_weather_data data c =
     (case main_receive_try WeatherValues_dict data c of
        Inr r \<Rightarrow> Inr r
      | Inl e \<Rightarrow> Inl (HTTPException 500 (str_exn e)))"

definition main_receive_airquality_data ::
  "AirQualityData \<Rightarrow> collection \<Rightarrow> exn + (document \<times> collection)" where
  "main_receive_airquality_data data c =
     (case main_receive_try AirQualityValues_dict data c of
        Inr r \<Rightarrow> Inr r
      | Inl e \<Rightarrow> Inl (HTTPException 500 (str_exn e)))"

section \<open>Routes and responses\<close>

text \<open>
  The framework turns what a handler returns into a response with the status code of
  the route decorator (200 when the decorator gives none) and an \<^verbatim>\<open>HTTPException\<close>
  into a response with the exception's status code and its detail. Any other exception
  that leaves a handler would be a plain 500.
\<close>

datatype content =
    JSONObject document
  | JSONArray "document list"
  | PlainText string

record response =
  status_code :: nat
  content :: content

definition respond :: "nat option \<Rightarrow> ('a \<Rightarrow> content) \<Rightarrow> exn + 'a \<Rightarrow> response" where
  "respond route_status render r =
     (case r of
        Inr v \<Rightarrow> \<lparr>status_code = (case route_status of None \<Rightarrow> 200 | Some sc \<Rightarrow> sc),
                  content = render v\<rparr>
      | Inl (HTTPException sc detail) \<Rightarrow>
          \<lparr>status_code = sc, content = JSONObject [(''detail'', VStr detail)]\<rparr>
      | Inl e \<Rightarrow> \<lparr>status_code = 500, content = PlainText ''Internal Server Error''\<rparr>)"

definition post_route ::
  "nat option \<Rightarrow> ('d \<Rightarrow> collection \<Rightarrow> exn + (document \<times> collection)) \<Rightarrow> 'd \<Rightarrow> collection
     \<Rightarrow> response \<times> collection" where
  "post_route route_status handler data c =
     (case handler data c of
        Inr (r, c') \<Rightarrow> (respond route_status JSONObject (Inr r), c')
      | Inl e \<Rightarrow> (respond route_status JSONObject (Inl e), c))"

text \<open>The requests that pass validation, one constructor for each route.\<close>

datatype app_main_request =
    POST_traffic_data TrafficData
  | POST_environmental_data EnvironmentalData
  | POST_weather_data WeatherData
  | POST_airquality_data AirQualityData
  | GET_data string "int option"

datatype main_request =
    main_POST_environmental_data EnvironmentalData
  | main_POST_weather_data WeatherData
  | main_POST_airquality_data AirQualityData

fun app_main :: "app_main_request \<Rightarrow> collection \<Rightarrow> response \<times> collection" where
  "app_main (POST_traffic_data data) c =
     post_route (Some HTTP_201_CREATED) receive_traffic_data data c"
| "app_main (POST_environmental_data data) c =
     post_route (Some HTTP_201_CREATED) receive_environmental_data data c"
| "app_main (POST_weather_data data) c =
     post_route (Some HTTP_201_CREATED) receive_weather_data data c"
| "app_main (POST_airquality_data data) c =
     post_route (Some HTTP_201_CREATED) receive_airquality_data data c"
| "app_main (GET_data device limit) c =
     (respond None JSONArray (get_device_data c device limit), c)"

fun main :: "main_request \<Rightarrow> collection \<Rightarrow> response \<times> collection" where
  "main (main_POST_environmental_data data) c =
     post_route None main_receive_environmental_data data c"
| "main (main_POST_weather_data data) c =
     post_route None main_receive_weather_data data c"
| "main (main_POST_airquality_data data) c =
     post_route None main_receive_airquality_data data c"

text \<open>The device identifier and the category of a POST request; a GET has none.\<close>

fun payload_deviceId :: "app_main_request \<Rightarrow> string option" where
  "payload_deviceId (POST_traffic_data data) = Some (deviceId data)"
| "payload_deviceId (POST_environmental_data data) = Some (deviceId data)"
| "payload_deviceId (POST_weather_data data) = Some (deviceId data)"
| "payload_deviceId (POST_airquality_data data) = Some (deviceId data)"
| "payload_deviceId (GET_data device limit) = None"

fun payload_timestamp :: "app_main_request \<Rightarrow> int option" where
  "payload_timestamp (POST_traffic_data data) = Some (timestamp data)"
| "payload_timestamp (POST_environmental_data data) = Some (timestamp data)"
| "payload_timestamp (POST_weather_data data) = Some (timestamp data)"
| "payload_timestamp (POST_airquality_data data) = Some (timestamp data)"
| "payload_timestamp (GET_data device limit) = None"

fun category :: "app_main_request \<Rightarrow> string option" where
  "category (POST_traffic_data data) = Some ''traffic''"
| "category (POST_environmental_data data) = Some ''environmental''"
| "category (POST_weather_data data) = Some ''weather''"
| "category (POST_airquality_data data) = Some ''air_quality''"
| "category (GET_data device limit) = None"

fun main_payload_deviceId :: "main_request \<Rightarrow> string" where
  "main_payload_deviceId (main_POST_environmental_data data) = deviceId data"
| "main_payload_deviceId (main_POST_weather_data data) = deviceId data"
| "main_payload_deviceId (main_POST_airquality_data data) = deviceId data"

text \<open>
  Both applications use the same database and collection name, so a request to either
  is an operation on the one collection.
\<close>

datatype request = App_main app_main_request | Main main_request

fun serve :: "request \<Rightarrow> collection \<Rightarrow> response \<times> collection" where
  "serve (App_main r) c = app_main r c"
| "serve (Main r) c = main r c"

fun serve_all :: "request list \<Rightarrow> collection \<Rightarrow> collection" where
  "serve_all [] c = c"
| "serve_all (r # rs) c = serve_all rs (snd (serve r c))"

section \<open>Sample data and observations\<close>

definition empty_collection :: collection where
  "empty_collection = \<lparr>docs = [], next_id = 0, available = True\<rparr>"

definition sample_values :: EnvironmentalValues where
  "sample_values =
     \<lparr>solarRadiationMax = 900, solarRadiationMin = 100, solarRadiationAvg = 500,
      uvIndexMax = 8, uvIndexMin = 1, uvIndexAvg = 4,
      temperatureMax = 30, temperatureMin = 12, temperatureAvg = 21,
      humidityMax = 90, humidityMin = 40, humidityAvg = 65\<rparr>"

definition sample_payload :: "int \<Rightarrow> EnvironmentalData" where
  "sample_payload t = \<lparr>deviceId = ''sensor-1'', timestamp = t, values = sample_values\<rparr>"

text \<open>The integer timestamps of the items of a response, in the order of the response.\<close>

definition returned_timestamps :: "document list \<Rightarrow> int list" where
  "returned_timestamps results =
     List.map_filter
       (\<lambda>item. case map_of item ''timestamp'' of Some (VInt t) \<Rightarrow> Some t | _ \<Rightarrow> None)
       results"

text \<open>The collection after the same reading has been posted twice to \<^verbatim>\<open>app_main.py\<close>.\<close>

definition two_readings :: collection where
  "two_readings =
     serve_all
       [App_main (POST_environmental_data (sample_payload 1700000000000)),
        App_main (POST_environmental_data (sample_payload 1700000000000))]
       empty_collection"

text \<open>The identifiers of the stored documents are \<^verbatim>\<open>ObjectId\<close>s, as those the store assigns.\<close>

definition generated_ids :: "collection \<Rightarrow> bool" where
  "generated_ids c =
     list_all (\<lambda>d. case map_of d ''_id'' of Some (VObjectId n) \<Rightarrow> True | _ \<Rightarrow> False) (docs c)"

section \<open>The collection only grows\<close>

lemma insert_one_appends:
  assumes "insert_one document c = Inr c'"
  shows "\<exists>d. docs c' = docs c @ [d] \<and> available c' = available c"
  using assms by (auto simp: insert_one_def Let_def split: if_splits)

lemma insert_sensor_data_appends:
  assumes "insert_sensor_data values_dict data data_type c = Inr (r, c')"
  shows "\<exists>d. docs c' = docs c @ [d]"
  using assms insert_one_appends
  by (fastforce simp: insert_sensor_data_def Let_def split: sum.splits)

lemma main_receive_try_appends:
  assumes "main_receive_try values_dict data c = Inr (r, c')"
  shows "\<exists>d. docs c' = docs c @ [d]"
  using assms insert_one_appends
  by (fastforce simp: main_receive_try_def Let_def split: sum.splits)

lemma post_route_prefix:
  assumes "\<And>r c'. handler data c = Inr (r, c') \<Longrightarrow> prefix (docs c) (docs c')"
  shows "prefix (docs c) (docs (snd (post_route st handler data c)))"
  using assms by (auto simp: post_route_def split: sum.splits)

lemma app_main_prefix: "prefix (docs c) (docs (snd (app_main r c)))"
proof (cases r)
  case (POST_traffic_data data)
  show ?thesis unfolding POST_traffic_data app_main.simps
    by (rule post_route_prefix)
       (auto simp: receive_traffic_data_def split: sum.splits
          dest!: insert_sensor_data_appends)
next
  case (POST_environmental_data data)
  show ?thesis unfolding POST_environmental_data app_main.simps
    by (rule post_route_prefix)
       (auto simp: receive_environmental_data_def split: sum.splits
          dest!: insert_sensor_data_appends)
next
  case (POST_weather_data data)
  show ?thesis unfolding POST_weather_data app_main.simps
    by (rule post_route_prefix)
       (auto simp: receive_weather_data_def split: sum.splits
          dest!: insert_sensor_data_appends)
next
  case (POST_airquality_data data)
  show ?thesis unfolding POST_airquality_data app_main.simps
    by (rule post_route_prefix)
       (auto simp: receive_airquality_data_def split: sum.splits
          dest!: insert_sensor_data_appends)
next
  case (GET_data device limit)
  then show ?thesis by simp
qed

lemma main_prefix: "prefix (docs c) (docs (snd (main r c)))"
proof (cases r)
  case (main_POST_environmental_data data)
  show ?thesis unfolding main_POST_environmental_data main.simps
    by (rule post_route_prefix)
       (auto simp: main_receive_environmental_data_def split: sum.splits
          dest!: main_receive_try_appends)
next
  case (main_POST_weather_data data)
  show ?thesis unfolding main_POST_weather_data main.simps
    by (rule post_route_prefix)
       (auto simp: main_receive_weather_data_def split: sum.splits
          dest!: main_receive_try_appends)
next
  case (main_POST_airquality_data data)
  show ?thesis unfolding main_POST_airquality_data main.simps
    by (rule post_route_prefix)
       (auto simp: main_receive_airquality_data_def split: sum.splits
          dest!: main_receive_try_appends)
qed

lemma serve_prefix: "prefix (docs c) (docs (snd (serve r c)))"
  by (cases r) (simp_all add: app_main_prefix main_prefix)

lemma serve_all_prefix: "prefix (docs c) (docs (serve_all rs c))"
proof (induction rs arbitrary: c)
  case Nil
  show ?case by simp
next
  case (Cons r rs)
  have "prefix (docs c) (docs (snd (serve r c)))"
    by (rule serve_prefix)
  also have "prefix (docs (snd (serve r c))) (docs (serve_all rs (snd (serve r c))))"
    by (rule Cons.IH)
  finally show ?case by simp
qed

text \<open>
  Claim C7. No operation updates or deletes a stored record: after any sequence of
  requests to either application, the documents that were in the collection are still
  there, unchanged and in their places, followed by the documents added since; and the
  query leaves the collection exactly as it was.
\<close>

theorem records_never_updated_or_deleted:
  "prefix (docs c) (docs (serve_all rs c))
   \<and> snd (serve (App_main (GET_data device limit)) c) = c"
  by (simp add: serve_all_prefix)

section \<open>The default limit\<close>

text \<open>
  Claim C9. A query without \<^verbatim>\<open>limit\<close> behaves exactly as the query with
  \<^verbatim>\<open>limit=100\<close>.
\<close>

theorem limit_defaults_to_100:
  "get_device_data c device None = get_device_data c device (Some 100)"
  by (simp add: get_device_data_def)


section \<open>Rounding to the nearest float is monotone\<close>

lemma pow2_powi: "pow2 k = 2 powi k"
  by (simp add: pow2_def power_int_def power_one_over inverse_eq_divide)

lemma pow2_pos: "0 < pow2 k"
  by (simp add: pow2_powi)

lemma pow2_add: "pow2 (a + b) = pow2 a * pow2 b"
  by (simp add: pow2_powi power_int_add)

lemma pow2_mono: "a \<le> b \<Longrightarrow> pow2 a \<le> pow2 b"
  by (simp add: pow2_powi power_int_increasing)

lemma pow2_less_imp_less: "pow2 a < pow2 b \<Longrightarrow> a < b"
  using pow2_mono [of b a] by (cases "a < b") auto

lemma pow2_nat: "0 \<le> k \<Longrightarrow> pow2 k = 2 ^ nat k"
  by (simp add: pow2_def)

lemma ilog2_bounds:
  assumes "0 < x"
  shows "pow2 (ilog2 x) \<le> x \<and> x < pow2 (ilog2 x + 1)"
proof (cases "1 \<le> x")
  case True
  define n where "n = \<lfloor>x\<rfloor>"
  have n: "0 < n" using True by (simp add: n_def)
  have e: "ilog2 x = bitlen n - 1" using True by (simp add: ilog2_def n_def)
  have b1: "1 \<le> bitlen n" using n bitlen_eq_zero_iff [of n] bitlen_nonneg [of n] by linarith
  from bitlen_bounds [OF n] have lo: "2 ^ nat (bitlen n - 1) \<le> n" and hi: "n < 2 ^ nat (bitlen n)"
    by auto
  have "pow2 (ilog2 x) = of_int (2 ^ nat (bitlen n - 1))"
    using b1 by (simp add: e pow2_nat)
  also have "\<dots> \<le> of_int n" using lo by (simp only: of_int_le_iff)
  also have "\<dots> \<le> x" by (simp add: n_def)
  finally have L: "pow2 (ilog2 x) \<le> x" .
  have "n + 1 \<le> 2 ^ nat (bitlen n)" using hi by simp
  then have "(of_int (n + 1) :: rat) \<le> of_int (2 ^ nat (bitlen n))" by (simp only: of_int_le_iff)
  moreover have "x < of_int (n + 1)" using floor_correct [of x] by (simp add: n_def)
  ultimately have "x < of_int (2 ^ nat (bitlen n))" by linarith
  moreover have "pow2 (ilog2 x + 1) = of_int (2 ^ nat (bitlen n))"
    using b1 by (simp add: e pow2_nat)
  ultimately show ?thesis using L by simp
next
  case False
  define y where "y = 1 / x"
  define m where "m = \<lceil>y\<rceil>"
  define k where "k = bitlen (m - 1)"
  have y1: "1 < y" using False assms by (simp add: y_def)
  have m2: "2 \<le> m" using y1 by (simp add: m_def le_ceiling_iff)
  then have m1: "0 < m - 1" by simp
  have e: "ilog2 x = - k" using False by (simp add: ilog2_def k_def m_def y_def)
  have k1: "1 \<le> k" using m1 bitlen_eq_zero_iff [of "m - 1"] bitlen_nonneg [of "m - 1"]
    unfolding k_def by linarith
  from bitlen_bounds [OF m1] have lo: "2 ^ nat (k - 1) \<le> m - 1" and hi: "m - 1 < 2 ^ nat k"
    by (auto simp: k_def)
  have xy: "x = 1 / y" using assms by (simp add: y_def)
  have "m \<le> 2 ^ nat k" using hi by simp
  then have "(of_int m :: rat) \<le> of_int (2 ^ nat k)" by (simp only: of_int_le_iff)
  then have "(of_int m :: rat) \<le> 2 ^ nat k" by simp
  moreover have "y \<le> of_int m" by (simp add: m_def)
  ultimately have yk: "y \<le> 2 ^ nat k" by linarith
  have "pow2 (- k) = 1 / 2 ^ nat k" using k1 by (simp add: pow2_def)
  also have "\<dots> \<le> 1 / y" using yk y1 by (simp add: frac_le)
  finally have "pow2 (- k) \<le> 1 / y" .
  then have L: "pow2 (ilog2 x) \<le> x" unfolding e by (simp add: xy)
  have "(of_int (2 ^ nat (k - 1)) :: rat) \<le> of_int (m - 1)" using lo by (simp only: of_int_le_iff)
  then have "(2 ^ nat (k - 1) :: rat) \<le> of_int m - 1" by simp
  moreover have "of_int m - 1 < y" using ceiling_correct [of y] by (simp add: m_def)
  ultimately have ky: "2 ^ nat (k - 1) < y" by linarith
  have "x = 1 / y" by (rule xy)
  also have "\<dots> < 1 / 2 ^ nat (k - 1)" using ky by (simp add: frac_less2)
  also have "\<dots> = pow2 (- k + 1)"
  proof (cases "k = 1")
    case True then show ?thesis by (simp add: pow2_def)
  next
    case False
    with k1 have "- k + 1 < 0" by simp
    then show ?thesis using k1 by (simp add: pow2_def)
  qed
  finally show ?thesis using L by (simp add: e)
qed

lemma ilog2_mono:
  assumes "0 < x" "x \<le> y"
  shows "ilog2 x \<le> ilog2 y"
proof (rule ccontr)
  assume "\<not> ilog2 x \<le> ilog2 y"
  then have "ilog2 y + 1 \<le> ilog2 x" by simp
  then have "pow2 (ilog2 y + 1) \<le> pow2 (ilog2 x)" by (rule pow2_mono)
  also have "\<dots> \<le> x" using ilog2_bounds [OF assms(1)] by simp
  also have "\<dots> \<le> y" by fact
  finally show False using ilog2_bounds [of y] assms by simp
qed

lemma round_half_even_bounds:
  "\<lfloor>x\<rfloor> \<le> round_half_even x \<and> round_half_even x \<le> \<lfloor>x\<rfloor> + 1"
  by (simp add: round_half_even_def Let_def)

lemma round_half_even_of_int [simp]: "round_half_even (of_int n) = n"
  by (simp add: round_half_even_def)

lemma round_half_even_mono:
  assumes "x \<le> y"
  shows "round_half_even x \<le> round_half_even y"
proof (cases "\<lfloor>x\<rfloor> = \<lfloor>y\<rfloor>")
  case True
  then show ?thesis using assms by (auto simp: round_half_even_def Let_def)
next
  case False
  then have "\<lfloor>x\<rfloor> + 1 \<le> \<lfloor>y\<rfloor>" using floor_mono [OF assms] by simp
  then show ?thesis
    using round_half_even_bounds [of x] round_half_even_bounds [of y] by linarith
qed

lemma round_half_even_minus: "round_half_even (- x) = - round_half_even x"
proof (cases "x = of_int \<lfloor>x\<rfloor>")
  case True
  then obtain n where "x = of_int n" ..
  then have "- x = of_int (- n)" by simp
  then show ?thesis using \<open>x = of_int n\<close> by (simp only: round_half_even_of_int)
next
  case False
  then have c: "\<lceil>x\<rceil> = \<lfloor>x\<rfloor> + 1" by (simp add: ceiling_altdef)
  have fm: "\<lfloor>- x\<rfloor> = - \<lfloor>x\<rfloor> - 1" by (simp add: floor_minus c)
  show ?thesis
    unfolding round_half_even_def Let_def fm
    by (auto simp: algebra_simps)
qed


lemma pow2_53: "pow2 (e + 53) = 2 ^ 53 * pow2 e"
  using pow2_add [of 53 e] by (simp add: pow2_def add.commute)

lemma pow2_52: "pow2 (e + 52) = 2 ^ 52 * pow2 e"
  using pow2_add [of 52 e] by (simp add: pow2_def add.commute)

lemma fl_exponent_mono:
  assumes "0 < x" "x \<le> y"
  shows "fl_exponent x \<le> fl_exponent y"
  using ilog2_mono [OF assms] assms by (simp add: fl_exponent_def)

lemma fl_significand_upper:
  assumes "0 < x"
  shows "x / pow2 (fl_exponent x) \<le> 2 ^ 53"
proof -
  have "x < pow2 (ilog2 x + 1)" using ilog2_bounds [OF assms] by simp
  also have "ilog2 x + 1 = (ilog2 x - 52) + 53" by simp
  also have "pow2 \<dots> = 2 ^ 53 * pow2 (ilog2 x - 52)" by (rule pow2_53)
  also have "\<dots> \<le> 2 ^ 53 * pow2 (fl_exponent x)"
    using assms by (simp add: fl_exponent_def pow2_mono)
  finally show ?thesis using pow2_pos [of "fl_exponent x"] by (simp add: pos_divide_le_eq)
qed

lemma fl_significand_lower:
  assumes "0 < x" "- 1074 < fl_exponent x"
  shows "2 ^ 52 \<le> x / pow2 (fl_exponent x)"
proof -
  have e: "fl_exponent x = ilog2 x - 52" using assms by (simp add: fl_exponent_def max_def split: if_splits)
  have "2 ^ 52 * pow2 (fl_exponent x) = pow2 (fl_exponent x + 52)" by (simp add: pow2_52)
  also have "\<dots> = pow2 (ilog2 x)" by (simp add: e)
  also have "\<dots> \<le> x" using ilog2_bounds [OF assms(1)] by simp
  finally show ?thesis using pow2_pos [of "fl_exponent x"] by (simp add: pos_le_divide_eq)
qed

lemma fl_pos_eq:
  "0 < x \<Longrightarrow> fl x = of_int (round_half_even (x / pow2 (fl_exponent x))) * pow2 (fl_exponent x)"
  by (simp add: fl_def)

lemma fl_mono_pos:
  assumes "0 < x" "x \<le> y"
  shows "fl x \<le> fl y"
proof -
  let ?ex = "fl_exponent x" and ?ey = "fl_exponent y"
  have y: "0 < y" using assms by simp
  have le: "?ex \<le> ?ey" by (rule fl_exponent_mono [OF assms])
  show ?thesis
  proof (cases "?ex = ?ey")
    case True
    have "x / pow2 ?ex \<le> y / pow2 ?ex"
      using assms(2) pow2_pos [of ?ex] by (simp add: divide_right_mono)
    then have "round_half_even (x / pow2 ?ex) \<le> round_half_even (y / pow2 ?ex)"
      by (rule round_half_even_mono)
    then have "(of_int (round_half_even (x / pow2 ?ex)) :: rat) * pow2 ?ex
        \<le> of_int (round_half_even (y / pow2 ?ex)) * pow2 ?ex"
      using pow2_pos [of ?ex] by (simp add: mult_right_mono)
    then show ?thesis using True assms(1) y by (simp add: fl_pos_eq)
  next
    case False
    with le have lt: "?ex + 1 \<le> ?ey" by simp
    have "- 1074 \<le> ?ex" by (simp add: fl_exponent_def)
    with lt have "- 1074 < ?ey" by simp
    from fl_significand_lower [OF y this]
    have "round_half_even (of_int (2 ^ 52)) \<le> round_half_even (y / pow2 ?ey)"
      by (intro round_half_even_mono) simp
    then have "2 ^ 52 \<le> round_half_even (y / pow2 ?ey)"
      by (simp only: round_half_even_of_int)
    then have my: "(of_int (2 ^ 52) :: rat) \<le> of_int (round_half_even (y / pow2 ?ey))"
      by (simp only: of_int_le_iff)
    from fl_significand_upper [OF assms(1)]
    have "round_half_even (x / pow2 ?ex) \<le> round_half_even (of_int (2 ^ 53))"
      by (intro round_half_even_mono) simp
    then have "round_half_even (x / pow2 ?ex) \<le> 2 ^ 53"
      by (simp only: round_half_even_of_int)
    then have mx: "(of_int (round_half_even (x / pow2 ?ex)) :: rat) \<le> of_int (2 ^ 53)"
      by (simp only: of_int_le_iff)
    have "fl x = of_int (round_half_even (x / pow2 ?ex)) * pow2 ?ex"
      by (rule fl_pos_eq [OF assms(1)])
    also have "\<dots> \<le> of_int (2 ^ 53) * pow2 ?ex"
      by (rule mult_right_mono [OF mx less_imp_le [OF pow2_pos]])
    also have "\<dots> = pow2 (?ex + 53)" by (simp add: pow2_53)
    also have "\<dots> \<le> pow2 (?ey + 52)" using lt by (intro pow2_mono) simp
    also have "\<dots> = of_int (2 ^ 52) * pow2 ?ey" by (simp add: pow2_52)
    also have "\<dots> \<le> of_int (round_half_even (y / pow2 ?ey)) * pow2 ?ey"
      by (rule mult_right_mono [OF my less_imp_le [OF pow2_pos]])
    also have "\<dots> = fl y" by (rule fl_pos_eq [OF y, symmetric])
    finally show ?thesis .
  qed
qed

lemma fl_nonneg:
  assumes "0 \<le> x"
  shows "0 \<le> fl x"
proof (cases "x = 0")
  case True
  then show ?thesis by (simp add: fl_def)
next
  case False
  with assms have x: "0 < x" by simp
  have "0 \<le> x / pow2 (fl_exponent x)" using x pow2_pos [of "fl_exponent x"] by simp
  then have "round_half_even 0 \<le> round_half_even (x / pow2 (fl_exponent x))"
    by (rule round_half_even_mono)
  then have "0 \<le> round_half_even (x / pow2 (fl_exponent x))"
    by (simp add: round_half_even_def)
  then show ?thesis using x pow2_pos [of "fl_exponent x"] by (simp add: fl_pos_eq)
qed

lemma fl_minus: "fl (- x) = - fl x"
  using round_half_even_minus [of "x / pow2 (fl_exponent x)"]
  by (simp add: fl_def fl_exponent_def)

lemma fl_mono:
  assumes "x \<le> y"
  shows "fl x \<le> fl y"
proof -
  consider "0 < x" | "y < 0" | "x \<le> 0" "0 \<le> y" by linarith
  then show ?thesis
  proof cases
    case 1
    then show ?thesis using assms by (rule fl_mono_pos)
  next
    case 2
    then have "0 < - y" "- y \<le> - x" using assms by simp_all
    then have "fl (- y) \<le> fl (- x)" by (rule fl_mono_pos)
    then show ?thesis by (simp add: fl_minus)
  next
    case 3
    have "0 \<le> fl (- x)" using 3(1) by (intro fl_nonneg) simp
    then have "fl x \<le> 0" by (simp add: fl_minus)
    also have "0 \<le> fl y" using 3(2) by (rule fl_nonneg)
    finally show ?thesis .
  qed
qed

lemma py_int_mono:
  assumes "x \<le> y"
  shows "py_int x \<le> py_int y"
proof (cases "0 \<le> x")
  case True
  then show ?thesis using assms by (simp add: py_int_def floor_mono)
next
  case False
  show ?thesis
  proof (cases "0 \<le> y")
    case True
    have "\<lceil>x\<rceil> \<le> 0" using False by (simp add: ceiling_le_iff)
    also have "0 \<le> \<lfloor>y\<rfloor>" using True by simp
    finally show ?thesis using False True by (simp add: py_int_def)
  next
    case y: False
    then show ?thesis using False assms by (simp add: py_int_def ceiling_mono)
  qed
qed

lemma datetime_to_millis_mono:
  assumes "dt \<le> dt'"
  shows "py_int (py_float_mul (total_seconds (dt - epoch)) 1000)
       \<le> py_int (py_float_mul (total_seconds (dt' - epoch)) 1000)"
proof -
  have "(of_int (dt - epoch) :: rat) / 1000000 \<le> of_int (dt' - epoch) / 1000000"
    using assms by (simp add: divide_right_mono)
  then have "total_seconds (dt - epoch) \<le> total_seconds (dt' - epoch)"
    unfolding total_seconds_def by (rule fl_mono)
  then have "total_seconds (dt - epoch) * of_int 1000 \<le> total_seconds (dt' - epoch) * of_int 1000"
    by simp
  then have "py_float_mul (total_seconds (dt - epoch)) 1000
      \<le> py_float_mul (total_seconds (dt' - epoch)) 1000"
    unfolding py_float_mul_def by (rule fl_mono)
  then show ?thesis by (rule py_int_mono)
qed

section \<open>The order and the number of the records of a query\<close>

lemma convert_item_timestamp:
  assumes "convert_item d = Inr item"
  shows "\<exists>dt. timestamp_key d = Some dt
            \<and> map_of item ''timestamp''
                = Some (VInt (py_int (py_float_mul (total_seconds (dt - epoch)) 1000)))"
  using assms
  by (auto simp: convert_item_def timestamp_key_def Let_def update_conv'
      split: option.splits pyvalue.splits)

lemma returned_timestamps_Cons:
  "map_of item ''timestamp'' = Some (VInt t)
   \<Longrightarrow> returned_timestamps (item # results) = t # returned_timestamps results"
  by (simp add: returned_timestamps_def map_filter_simps)

lemma convert_items_sorted:
  assumes "convert_items rs = Inr results"
    and "sorted_wrt (\<lambda>a b. timestamp_key b \<le> timestamp_key a) rs"
  shows "length results = length rs
       \<and> length (returned_timestamps results) = length rs
       \<and> sorted_wrt (\<ge>) (returned_timestamps results)
       \<and> (\<forall>t \<in> set (returned_timestamps results). \<exists>d \<in> set rs. \<exists>dt.
             timestamp_key d = Some dt
             \<and> t = py_int (py_float_mul (total_seconds (dt - epoch)) 1000))"
  using assms
proof (induction rs arbitrary: results)
  case Nil
  then show ?case by (simp add: returned_timestamps_def map_filter_simps)
next
  case (Cons d rs)
  from Cons.prems(1) obtain item results' where
    item: "convert_item d = Inr item" and rest: "convert_items rs = Inr results'"
    and results: "results = item # results'"
    by (auto split: sum.splits)
  from convert_item_timestamp [OF item] obtain dt where
    key: "timestamp_key d = Some dt"
    and ts: "map_of item ''timestamp''
               = Some (VInt (py_int (py_float_mul (total_seconds (dt - epoch)) 1000)))"
    by blast
  from Cons.prems(2) have above: "\<forall>d' \<in> set rs. timestamp_key d' \<le> timestamp_key d"
    and sorted: "sorted_wrt (\<lambda>a b. timestamp_key b \<le> timestamp_key a) rs"
    by simp_all
  note IH = Cons.IH [OF rest sorted]
  have rt: "returned_timestamps (item # results')
      = py_int (py_float_mul (total_seconds (dt - epoch)) 1000) # returned_timestamps results'"
    by (rule returned_timestamps_Cons [OF ts])
  have head: "t \<le> py_int (py_float_mul (total_seconds (dt - epoch)) 1000)"
    if "t \<in> set (returned_timestamps results')" for t
  proof -
    from IH that obtain d' dt' where d': "d' \<in> set rs" "timestamp_key d' = Some dt'"
      and t: "t = py_int (py_float_mul (total_seconds (dt' - epoch)) 1000)"
      by blast
    from above d' key have "dt' \<le> dt" by fastforce
    then show ?thesis unfolding t by (rule datetime_to_millis_mono)
  qed
  show ?case
    using IH head key by (auto simp: rt results)
qed

lemma sorted_wrt_take_local:
  "sorted_wrt P xs \<Longrightarrow> sorted_wrt P (take n xs)"
  using sorted_wrt_append [of P "take n xs" "drop n xs"] by simp

lemma cursor_sorted:
  "sorted_wrt (\<lambda>a b. timestamp_key b \<le> timestamp_key a)
     (take n (limit_cursor limit (sort_timestamp_desc xs)))"
proof -
  have "sorted (map timestamp_key (sort_key timestamp_key xs))"
    by (rule sorted_sort_key)
  then have "sorted_wrt (\<lambda>a b. timestamp_key b \<le> timestamp_key a) (sort_timestamp_desc xs)"
    by (simp add: sort_timestamp_desc_def sorted_wrt_rev sorted_map)
  then show ?thesis
    by (simp add: limit_cursor_def sorted_wrt_take_local)
qed

text \<open>
  Claim C3, as amended. A query that returns records returns at most \<^verbatim>\<open>limit\<close> of
  them (100 without \<^verbatim>\<open>limit\<close>), each with an integer timestamp, in order of
  descending timestamp where equal timestamps may follow each other.
\<close>

theorem query_at_most_limit_descending:
  assumes "get_device_data c device limit = Inr results"
  shows "int (length results) \<le> (case limit of None \<Rightarrow> 100 | Some n \<Rightarrow> n)
       \<and> length (returned_timestamps results) = length results
       \<and> sorted_wrt (\<ge>) (returned_timestamps results)"
proof -
  define n where "n = (case limit of None \<Rightarrow> 100 | Some n \<Rightarrow> n)"
  define rs where "rs = take (nat n) (limit_cursor n (sort_timestamp_desc (collection_find device c)))"
  from assms have body: "get_device_data_try c device n = Inr results"
    by (auto simp: get_device_data_def n_def split: sum.splits)
  then have n0: "0 \<le> n" and conv: "convert_items rs = Inr results"
    by (auto simp: get_device_data_try_def to_list_def Let_def rs_def split: sum.splits if_splits)
  have "sorted_wrt (\<lambda>a b. timestamp_key b \<le> timestamp_key a) rs"
    unfolding rs_def by (rule cursor_sorted)
  from convert_items_sorted [OF conv this]
  have len: "length results = length rs"
    and "length (returned_timestamps results) = length rs"
    and "sorted_wrt (\<ge>) (returned_timestamps results)"
    by simp_all
  moreover have "length rs \<le> nat n" by (simp add: rs_def)
  ultimately show ?thesis using n0 by (simp add: n_def [symmetric])
qed

theorem query_at_most_limit_descending_witness:
  "get_device_data two_readings ''sensor-1'' (Some 1)
     = Inr (projr (get_device_data two_readings ''sensor-1'' (Some 1)))
   \<and> int (length (projr (get_device_data two_readings ''sensor-1'' (Some 1)))) \<le> 1
   \<and> sorted_wrt (\<ge>)
        (returned_timestamps (projr (get_device_data two_readings ''sensor-1'' (Some 1))))"
proof -
  have h: "get_device_data two_readings ''sensor-1'' (Some 1)
     = Inr (projr (get_device_data two_readings ''sensor-1'' (Some 1)))"
    by code_simp
  from query_at_most_limit_descending [OF h] h show ?thesis by simp
qed

text \<open>
  The order is not strict: two readings of one device with the same timestamp (here the
  same payload posted twice) are both stored and both returned, one after the other.
\<close>

theorem strictly_descending_counterexample:
  "\<not> isl (get_device_data two_readings ''sensor-1'' (Some 10))
   \<and> returned_timestamps (projr (get_device_data two_readings ''sensor-1'' (Some 10)))
       = [1700000000000, 1700000000000]
   \<and> \<not> sorted_wrt (>)
         (returned_timestamps (projr (get_device_data two_readings ''sensor-1'' (Some 10))))"
  by code_simp

section \<open>The timestamp of a reading, in and out\<close>

text \<open>
  Claim C1. Ingest followed by a query should return the millisecond timestamp that was
  sent. For the payload with timestamp 1001 the ingest succeeds (201) and stores
  1970-01-01T00:00:01.001, but the query returns 1000: the seconds \<open>1.001\<close> are the
  float just below \<open>1.001\<close>, its product with 1000 is the float just below 1001, and
  \<^verbatim>\<open>int\<close> truncates it.
\<close>

theorem roundtrip_loses_a_millisecond:
  "payload_timestamp (POST_environmental_data (sample_payload 1001)) = Some 1001
   \<and> status_code (fst (app_main (POST_environmental_data (sample_payload 1001))
                         empty_collection)) = 201
   \<and> returned_timestamps
        (projr (get_device_data
                  (snd (app_main (POST_environmental_data (sample_payload 1001))
                          empty_collection))
                  ''sensor-1'' None))
       = [1000]"
  by code_simp

text \<open>The same loss at a timestamp of November 2004, stored through \<^verbatim>\<open>main.py\<close>.\<close>

lemma roundtrip_loses_a_millisecond_2004:
  "returned_timestamps
     (projr (get_device_data
               (snd (main (main_POST_environmental_data (sample_payload 1099511127781))
                       empty_collection))
               ''sensor-1'' None))
    = [1099511127780]"
  by code_simp

text \<open>The example of the specification, timestamp 1700000000000, does come back.\<close>

lemma roundtrip_example:
  "returned_timestamps
     (projr (get_device_data
               (snd (app_main (POST_environmental_data (sample_payload 1700000000000))
                       empty_collection))
               ''sensor-1'' None))
    = [1700000000000]"
  by code_simp

section \<open>The outcome of a query that finds nothing\<close>

text \<open>
  Every exception raised inside \<^verbatim>\<open>try:\<close> is caught by \<^verbatim>\<open>except Exception\<close>, the
  \<^verbatim>\<open>HTTPException\<close> with status 404 included, so no response of the query route has
  status 404.
\<close>

lemma get_device_data_never_404:
  "status_code (fst (app_main (GET_data device limit) c)) \<noteq> HTTP_404_NOT_FOUND"
  by (auto simp: respond_def get_device_data_def HTTP_404_NOT_FOUND_def
      HTTP_500_INTERNAL_SERVER_ERROR_def split: sum.splits exn.splits)

text \<open>
  Claim C2. A query that finds no record should be answered with status 404 and not
  500. On the empty collection the handler raises the 404 exception, catches it itself
  and answers with status 500, the detail being the string of the 404 exception.
\<close>

theorem unknown_device_yields_500:
  "collection_find ''sensor-1'' empty_collection = []
   \<and> get_device_data empty_collection ''sensor-1'' None
       = Inl (HTTPException 500 ''404: Dispositivo no encontrado'')
   \<and> status_code (fst (app_main (GET_data ''sensor-1'' None) empty_collection)) = 500"
  by code_simp

text \<open>
  Claim C10. With \<^verbatim>\<open>limit=0\<close> and a reachable store, the list that \<^verbatim>\<open>to_list\<close>
  materialises is empty whatever the collection holds, the branch for zero records is
  taken (it raises the exception with status 404), and the outcome of the handler is the
  one for a collection without documents.
\<close>

theorem limit_zero_takes_empty_branch:
  assumes "available c"
  shows "to_list c (limit_cursor 0 (sort_timestamp_desc (collection_find device c))) 0 = Inr []
       \<and> get_device_data_try c device 0
           = Inl (HTTPException HTTP_404_NOT_FOUND ''Dispositivo no encontrado'')
       \<and> get_device_data c device (Some 0)
           = get_device_data (c\<lparr>docs := []\<rparr>) device (Some 0)"
  using assms
  by (simp add: to_list_def get_device_data_try_def get_device_data_def collection_find_def
      sort_timestamp_desc_def limit_cursor_def)

theorem limit_zero_takes_empty_branch_witness:
  "available two_readings
   \<and> length (collection_find ''sensor-1'' two_readings) = 2
   \<and> get_device_data_try two_readings ''sensor-1'' 0
       = Inl (HTTPException HTTP_404_NOT_FOUND ''Dispositivo no encontrado'')"
proof -
  have a: "available two_readings" by code_simp
  have f: "length (collection_find ''sensor-1'' two_readings) = 2" by code_simp
  from limit_zero_takes_empty_branch [OF a, of "''sensor-1''"] a f show ?thesis by blast
qed

section \<open>The two applications side by side\<close>

text \<open>
  Claim C6. The two modules normalise the timestamp in the same way: on the same payload
  and collection, \<^verbatim>\<open>insert_sensor_data\<close> of \<^verbatim>\<open>app_main.py\<close> and the POST body of
  \<^verbatim>\<open>main.py\<close> either raise the same exception, or both store one document, with the
  same \<^verbatim>\<open>timestamp\<close> field.
\<close>

theorem timestamp_normalization_identical:
  "(\<exists>e. insert_sensor_data values_dict data data_type c = Inl e
        \<and> main_receive_try values_dict data c = Inl e)
   \<or> (\<exists>r c1 c2 d1 d2.
        insert_sensor_data values_dict data data_type c = Inr (r, c1)
        \<and> main_receive_try values_dict data c = Inr (r, c2)
        \<and> docs c1 = docs c @ [d1] \<and> docs c2 = docs c @ [d2]
        \<and> map_of d1 ''timestamp'' = map_of d2 ''timestamp'')"
  by (simp add: insert_sensor_data_def main_receive_try_def Let_def dict_def insert_one_def
      split: sum.splits)

section \<open>What an ingest answers and what it stores\<close>

lemma respond_ok: "respond st render (Inr v) = \<lparr>status_code = (case st of None \<Rightarrow> 200 | Some sc \<Rightarrow> sc), content = render v\<rparr>"
  by (simp add: respond_def)

lemma respond_http: "respond st render (Inl (HTTPException sc d)) = \<lparr>status_code = sc, content = JSONObject [(''detail'', VStr d)]\<rparr>"
  by (simp add: respond_def)

lemma insert_sensor_data_result:
  assumes "insert_sensor_data values_dict data data_type c = Inr (r, c')"
  shows "r = [(''status'', VStr ''success''), (''deviceId'', VStr (deviceId data))]
       \<and> (\<exists>d. docs c' = docs c @ [d] \<and> map_of d ''data_type'' = Some (VStr data_type))"
  using assms
  by (auto simp: insert_sensor_data_def Let_def dict_def insert_one_def
      split: sum.splits if_splits)

lemma main_receive_try_result:
  assumes "main_receive_try values_dict data c = Inr (r, c')"
  shows "r = [(''status'', VStr ''success''), (''deviceId'', VStr (deviceId data))]
       \<and> (\<exists>d. docs c' = docs c @ [d]
              \<and> map fst d = [''_id'', ''deviceId'', ''timestamp'', ''values''])"
  using assms
  by (auto simp: main_receive_try_def Let_def dict_def insert_one_def
      split: sum.splits if_splits)

lemma post_route_cases:
  assumes "\<And>e. handler data c = Inl e \<Longrightarrow> \<exists>m. e = HTTPException 500 m"
  shows "(\<exists>r c'. handler data c = Inr (r, c')
            \<and> post_route st handler data c
                = (\<lparr>status_code = (case st of None \<Rightarrow> 200 | Some sc \<Rightarrow> sc), content = JSONObject r\<rparr>, c'))
       \<or> (\<exists>m. handler data c = Inl (HTTPException 500 m) \<and> post_route st handler data c
                = (\<lparr>status_code = 500, content = JSONObject [(''detail'', VStr m)]\<rparr>, c))"
proof (cases "handler data c")
  case (Inl e)
  with assms obtain m where "e = HTTPException 500 m" by blast
  with Inl show ?thesis by (simp add: post_route_def respond_http)
next
  case (Inr p)
  then show ?thesis by (cases p) (simp add: post_route_def respond_ok)
qed

lemma app_main_acknowledgement:
  assumes "payload_deviceId req = Some device"
    and "status_code (fst (app_main req c)) < 400"
  shows "fst (app_main req c)
           = \<lparr>status_code = 201,
              content = JSONObject [(''status'', VStr ''success''), (''deviceId'', VStr device)]\<rparr>"
proof (cases req)
  case (POST_traffic_data data)
  have "\<And>e. receive_traffic_data data c = Inl e \<Longrightarrow> \<exists>m. e = HTTPException 500 m"
    by (auto simp: receive_traffic_data_def HTTP_500_INTERNAL_SERVER_ERROR_def split: sum.splits)
  from post_route_cases [of receive_traffic_data data c "Some HTTP_201_CREATED", OF this] assms
  show ?thesis
    by (auto simp: POST_traffic_data HTTP_201_CREATED_def receive_traffic_data_def
        split: sum.splits dest!: insert_sensor_data_result)
next
  case (POST_environmental_data data)
  have "\<And>e. receive_environmental_data data c = Inl e \<Longrightarrow> \<exists>m. e = HTTPException 500 m"
    by (auto simp: receive_environmental_data_def HTTP_500_INTERNAL_SERVER_ERROR_def split: sum.splits)
  from post_route_cases [of receive_environmental_data data c "Some HTTP_201_CREATED", OF this] assms
  show ?thesis
    by (auto simp: POST_environmental_data HTTP_201_CREATED_def receive_environmental_data_def
        split: sum.splits dest!: insert_sensor_data_result)
next
  case (POST_weather_data data)
  have "\<And>e. receive_weather_data data c = Inl e \<Longrightarrow> \<exists>m. e = HTTPException 500 m"
    by (auto simp: receive_weather_data_def HTTP_500_INTERNAL_SERVER_ERROR_def split: sum.splits)
  from post_route_cases [of receive_weather_data data c "Some HTTP_201_CREATED", OF this] assms
  show ?thesis
    by (auto simp: POST_weather_data HTTP_201_CREATED_def receive_weather_data_def
        split: sum.splits dest!: insert_sensor_data_result)
next
  case (POST_airquality_data data)
  have "\<And>e. receive_airquality_data data c = Inl e \<Longrightarrow> \<exists>m. e = HTTPException 500 m"
    by (auto simp: receive_airquality_data_def HTTP_500_INTERNAL_SERVER_ERROR_def split: sum.splits)
  from post_route_cases [of receive_airquality_data data c "Some HTTP_201_CREATED", OF this] assms
  show ?thesis
    by (auto simp: POST_airquality_data HTTP_201_CREATED_def receive_airquality_data_def
        split: sum.splits dest!: insert_sensor_data_result)
next
  case (GET_data device limit)
  with assms show ?thesis by simp
qed


lemma main_acknowledgement:
  assumes "status_code (fst (main req c)) < 400"
  shows "fst (main req c)
           = \<lparr>status_code = 200,
              content = JSONObject [(''status'', VStr ''success''),
                                    (''deviceId'', VStr (main_payload_deviceId req))]\<rparr>"
proof (cases req)
  case (main_POST_environmental_data data)
  have "\<And>e. main_receive_environmental_data data c = Inl e \<Longrightarrow> \<exists>m. e = HTTPException 500 m"
    by (auto simp: main_receive_environmental_data_def split: sum.splits)
  from post_route_cases [of main_receive_environmental_data data c None, OF this] assms
  show ?thesis
    by (auto simp: main_POST_environmental_data main_receive_environmental_data_def
        split: sum.splits dest!: main_receive_try_result)
next
  case (main_POST_weather_data data)
  have "\<And>e. main_receive_weather_data data c = Inl e \<Longrightarrow> \<exists>m. e = HTTPException 500 m"
    by (auto simp: main_receive_weather_data_def split: sum.splits)
  from post_route_cases [of main_receive_weather_data data c None, OF this] assms
  show ?thesis
    by (auto simp: main_POST_weather_data main_receive_weather_data_def
        split: sum.splits dest!: main_receive_try_result)
next
  case (main_POST_airquality_data data)
  have "\<And>e. main_receive_airquality_data data c = Inl e \<Longrightarrow> \<exists>m. e = HTTPException 500 m"
    by (auto simp: main_receive_airquality_data_def split: sum.splits)
  from post_route_cases [of main_receive_airquality_data data c None, OF this] assms
  show ?thesis
    by (auto simp: main_POST_airquality_data main_receive_airquality_data_def
        split: sum.splits dest!: main_receive_try_result)
qed

text \<open>
  Claim C4, as amended. A successful ingest through one of the four POST routes of
  \<^verbatim>\<open>app_main.py\<close> is answered with status 201, one through the three POST routes of
  \<^verbatim>\<open>main.py\<close> with status 200, in both cases with the body
  \<^verbatim>\<open>{status: "success", deviceId}\<close> carrying the device identifier of the payload.
\<close>

theorem ingest_acknowledgement:
  "(payload_deviceId req = Some device \<and> status_code (fst (app_main req c)) < 400
      \<longrightarrow> fst (app_main req c)
            = \<lparr>status_code = 201,
               content = JSONObject [(''status'', VStr ''success''),
                                     (''deviceId'', VStr device)]\<rparr>)
   \<and> (status_code (fst (main mreq c)) < 400
      \<longrightarrow> fst (main mreq c)
            = \<lparr>status_code = 200,
               content = JSONObject [(''status'', VStr ''success''),
                                     (''deviceId'', VStr (main_payload_deviceId mreq))]\<rparr>)"
  using app_main_acknowledgement [of req device c] main_acknowledgement [of mreq c] by blast

theorem ingest_acknowledgement_witness:
  "payload_deviceId (POST_environmental_data (sample_payload 1700000000000)) = Some ''sensor-1''
   \<and> status_code (fst (app_main (POST_environmental_data (sample_payload 1700000000000))
                         empty_collection)) < 400
   \<and> status_code (fst (app_main (POST_environmental_data (sample_payload 1700000000000))
                         empty_collection)) = 201
   \<and> status_code (fst (main (main_POST_environmental_data (sample_payload 1700000000000))
                         empty_collection)) < 400
   \<and> fst (main (main_POST_environmental_data (sample_payload 1700000000000)) empty_collection)
       = \<lparr>status_code = 200,
          content = JSONObject [(''status'', VStr ''success''),
                                (''deviceId'', VStr ''sensor-1'')]\<rparr>"
proof -
  have a: "payload_deviceId (POST_environmental_data (sample_payload 1700000000000))
             = Some ''sensor-1''"
    by (simp add: sample_payload_def)
  have b: "status_code (fst (app_main (POST_environmental_data (sample_payload 1700000000000))
                         empty_collection)) < 400"
    by code_simp
  have c: "status_code (fst (main (main_POST_environmental_data (sample_payload 1700000000000))
                         empty_collection)) < 400"
    by code_simp
  have d: "main_payload_deviceId (main_POST_environmental_data (sample_payload 1700000000000))
             = ''sensor-1''"
    by (simp add: sample_payload_def)
  from ingest_acknowledgement
         [of "POST_environmental_data (sample_payload 1700000000000)" "''sensor-1''"
             empty_collection "main_POST_environmental_data (sample_payload 1700000000000)"]
       a b c d
  show ?thesis by simp
qed

text \<open>A successful ingest through \<^verbatim>\<open>main.py\<close> is not answered with 201.\<close>

theorem main_ingest_returns_200_counterexample:
  "fst (main (main_POST_environmental_data (sample_payload 1700000000000)) empty_collection)
     = \<lparr>status_code = 200,
        content = JSONObject [(''status'', VStr ''success''), (''deviceId'', VStr ''sensor-1'')]\<rparr>
   \<and> length (docs (snd (main (main_POST_environmental_data (sample_payload 1700000000000))
                          empty_collection))) = 1
   \<and> status_code (fst (main (main_POST_environmental_data (sample_payload 1700000000000))
                          empty_collection)) \<noteq> 201"
  by code_simp

lemma app_main_stores_tag:
  assumes "category req = Some cat" and "status_code (fst (app_main req c)) < 400"
  shows "\<exists>d. docs (snd (app_main req c)) = docs c @ [d]
            \<and> map_of d ''data_type'' = Some (VStr cat)"
proof (cases req)
  case (POST_traffic_data data)
  have "\<And>e. receive_traffic_data data c = Inl e \<Longrightarrow> \<exists>m. e = HTTPException 500 m"
    by (auto simp: receive_traffic_data_def HTTP_500_INTERNAL_SERVER_ERROR_def split: sum.splits)
  from post_route_cases [of receive_traffic_data data c "Some HTTP_201_CREATED", OF this] assms
  show ?thesis
    by (auto simp: POST_traffic_data HTTP_201_CREATED_def receive_traffic_data_def
        split: sum.splits dest!: insert_sensor_data_result)
next
  case (POST_environmental_data data)
  have "\<And>e. receive_environmental_data data c = Inl e \<Longrightarrow> \<exists>m. e = HTTPException 500 m"
    by (auto simp: receive_environmental_data_def HTTP_500_INTERNAL_SERVER_ERROR_def split: sum.splits)
  from post_route_cases [of receive_environmental_data data c "Some HTTP_201_CREATED", OF this] assms
  show ?thesis
    by (auto simp: POST_environmental_data HTTP_201_CREATED_def receive_environmental_data_def
        split: sum.splits dest!: insert_sensor_data_result)
next
  case (POST_weather_data data)
  have "\<And>e. receive_weather_data data c = Inl e \<Longrightarrow> \<exists>m. e = HTTPException 500 m"
    by (auto simp: receive_weather_data_def HTTP_500_INTERNAL_SERVER_ERROR_def split: sum.splits)
  from post_route_cases [of receive_weather_data data c "Some HTTP_201_CREATED", OF this] assms
  show ?thesis
    by (auto simp: POST_weather_data HTTP_201_CREATED_def receive_weather_data_def
        split: sum.splits dest!: insert_sensor_data_result)
next
  case (POST_airquality_data data)
  have "\<And>e. receive_airquality_data data c = Inl e \<Longrightarrow> \<exists>m. e = HTTPException 500 m"
    by (auto simp: receive_airquality_data_def HTTP_500_INTERNAL_SERVER_ERROR_def split: sum.splits)
  from post_route_cases [of receive_airquality_data data c "Some HTTP_201_CREATED", OF this] assms
  show ?thesis
    by (auto simp: POST_airquality_data HTTP_201_CREATED_def receive_airquality_data_def
        split: sum.splits dest!: insert_sensor_data_result)
next
  case (GET_data device limit)
  with assms show ?thesis by simp
qed

lemma main_stores_no_tag:
  assumes "status_code (fst (main req c)) < 400"
  shows "\<exists>d. docs (snd (main req c)) = docs c @ [d]
            \<and> map fst d = [''_id'', ''deviceId'', ''timestamp'', ''values'']"
proof (cases req)
  case (main_POST_environmental_data data)
  have "\<And>e. main_receive_environmental_data data c = Inl e \<Longrightarrow> \<exists>m. e = HTTPException 500 m"
    by (auto simp: main_receive_environmental_data_def split: sum.splits)
  from post_route_cases [of main_receive_environmental_data data c None, OF this] assms
  show ?thesis
    by (auto simp: main_POST_environmental_data main_receive_environmental_data_def
        split: sum.splits dest!: main_receive_try_result)
next
  case (main_POST_weather_data data)
  have "\<And>e. main_receive_weather_data data c = Inl e \<Longrightarrow> \<exists>m. e = HTTPException 500 m"
    by (auto simp: main_receive_weather_data_def split: sum.splits)
  from post_route_cases [of main_receive_weather_data data c None, OF this] assms
  show ?thesis
    by (auto simp: main_POST_weather_data main_receive_weather_data_def
        split: sum.splits dest!: main_receive_try_result)
next
  case (main_POST_airquality_data data)
  have "\<And>e. main_receive_airquality_data data c = Inl e \<Longrightarrow> \<exists>m. e = HTTPException 500 m"
    by (auto simp: main_receive_airquality_data_def split: sum.splits)
  from post_route_cases [of main_receive_airquality_data data c None, OF this] assms
  show ?thesis
    by (auto simp: main_POST_airquality_data main_receive_airquality_data_def
        split: sum.splits dest!: main_receive_try_result)
qed

text \<open>
  Claim C5, as amended. A successful ingest through \<^verbatim>\<open>app_main.py\<close> stores one
  document whose field \<^verbatim>\<open>data_type\<close> is the category of the route; a successful ingest
  through \<^verbatim>\<open>main.py\<close> stores one document with the fields \<^verbatim>\<open>_id\<close>,
  \<^verbatim>\<open>deviceId\<close>, \<^verbatim>\<open>timestamp\<close> and \<^verbatim>\<open>values\<close> and no category.
\<close>

theorem stored_record_category_tag:
  "(category req = Some cat \<and> status_code (fst (app_main req c)) < 400
      \<longrightarrow> (\<exists>d. docs (snd (app_main req c)) = docs c @ [d]
               \<and> map_of d ''data_type'' = Some (VStr cat)))
   \<and> (status_code (fst (main mreq c)) < 400
      \<longrightarrow> (\<exists>d. docs (snd (main mreq c)) = docs c @ [d]
               \<and> map fst d = [''_id'', ''deviceId'', ''timestamp'', ''values'']))"
  using app_main_stores_tag [of req cat c] main_stores_no_tag [of mreq c] by blast

theorem stored_record_category_tag_witness:
  "category (POST_environmental_data (sample_payload 1700000000000)) = Some ''environmental''
   \<and> status_code (fst (app_main (POST_environmental_data (sample_payload 1700000000000))
                         empty_collection)) < 400
   \<and> status_code (fst (main (main_POST_environmental_data (sample_payload 1700000000000))
                         empty_collection)) < 400
   \<and> (\<exists>d. docs (snd (app_main (POST_environmental_data (sample_payload 1700000000000))
                        empty_collection)) = docs empty_collection @ [d]
          \<and> map_of d ''data_type'' = Some (VStr ''environmental''))
   \<and> (\<exists>d. docs (snd (main (main_POST_environmental_data (sample_payload 1700000000000))
                        empty_collection)) = docs empty_collection @ [d]
          \<and> map fst d = [''_id'', ''deviceId'', ''timestamp'', ''values''])"
proof -
  have a: "category (POST_environmental_data (sample_payload 1700000000000))
             = Some ''environmental''"
    by simp
  have b: "status_code (fst (app_main (POST_environmental_data (sample_payload 1700000000000))
                         empty_collection)) < 400"
    by code_simp
  have c: "status_code (fst (main (main_POST_environmental_data (sample_payload 1700000000000))
                         empty_collection)) < 400"
    by code_simp
  from stored_record_category_tag
         [of "POST_environmental_data (sample_payload 1700000000000)" "''environmental''"
             empty_collection "main_POST_environmental_data (sample_payload 1700000000000)"]
       a b c
  show ?thesis by blast
qed

text \<open>The document that \<^verbatim>\<open>main.py\<close> stores has no category field.\<close>

theorem main_stores_no_category_counterexample:
  "status_code (fst (main (main_POST_environmental_data (sample_payload 1700000000000))
                       empty_collection)) = 200
   \<and> map (map fst) (docs (snd (main (main_POST_environmental_data (sample_payload 1700000000000))
                                 empty_collection)))
       = [[''_id'', ''deviceId'', ''timestamp'', ''values'']]
   \<and> map (\<lambda>d. map_of d ''data_type'')
         (docs (snd (main (main_POST_environmental_data (sample_payload 1700000000000))
                       empty_collection)))
       = [None]"
  by code_simp

section \<open>The identifier of a returned record\<close>

lemma convert_item_id:
  assumes "convert_item d = Inr item"
  shows "\<exists>v. map_of d ''_id'' = Some v \<and> map_of item ''_id'' = Some (py_str v)"
  using assms
  by (auto simp: convert_item_def Let_def update_conv'
      split: option.splits pyvalue.splits)

lemma convert_items_list_all2:
  assumes "convert_items rs = Inr results"
  shows "list_all2 (\<lambda>d item. convert_item d = Inr item) rs results"
  using assms
proof (induction rs arbitrary: results)
  case Nil
  then show ?case by simp
next
  case (Cons d rs)
  from Cons.prems obtain item results' where
    "convert_item d = Inr item" "convert_items rs = Inr results'" "results = item # results'"
    by (auto split: sum.splits)
  with Cons.IH [of results'] show ?case by simp
qed

lemma mset_take_subseteq_local: "mset (take n xs) \<subseteq># mset xs"
proof -
  have "mset (take n xs @ drop n xs) = mset xs" by simp
  then have "mset (take n xs) + mset (drop n xs) = mset xs" by (simp only: mset_append)
  then show ?thesis by (metis mset_subset_eq_add_left)
qed

lemma cursor_mset:
  "mset (take m (limit_cursor n (sort_timestamp_desc (collection_find device c))))
     \<subseteq># mset (docs c)"
proof -
  have 1: "mset (take m (limit_cursor n (sort_timestamp_desc (collection_find device c))))
      \<subseteq># mset (limit_cursor n (sort_timestamp_desc (collection_find device c)))"
    by (rule mset_take_subseteq_local)
  have 2: "mset (limit_cursor n (sort_timestamp_desc (collection_find device c)))
      \<subseteq># mset (sort_timestamp_desc (collection_find device c))"
    by (simp add: limit_cursor_def mset_take_subseteq_local)
  have 3: "mset (sort_timestamp_desc (collection_find device c)) \<subseteq># mset (docs c)"
    by (simp add: sort_timestamp_desc_def collection_find_def)
  from 1 2 3 show ?thesis by (meson subset_mset.order_trans)
qed

text \<open>
  Claim C8. In a collection whose identifiers are store-generated \<^verbatim>\<open>ObjectId\<close>s,
  the records that a query returns are, position by position, the conversions of
  stored documents of the device, each stored document used at most as often as it is
  stored; and each returned record carries under \<^verbatim>\<open>_id\<close> the string form of the
  \<^verbatim>\<open>ObjectId\<close> of the very document it was converted from, not the
  \<^verbatim>\<open>ObjectId\<close> itself.
\<close>

theorem query_returns_id_as_string:
  assumes "generated_ids c"
    and "get_device_data c device limit = Inr results"
  shows "\<exists>rs. mset rs \<subseteq># mset (docs c)
            \<and> list_all2
                 (\<lambda>d item. convert_item d = Inr item
                    \<and> map_of d ''deviceId'' = Some (VStr device)
                    \<and> (\<exists>n. map_of d ''_id'' = Some (VObjectId n)
                           \<and> map_of item ''_id'' = Some (VStr (str_ObjectId n))))
                 rs results"
proof -
  define n where "n = (case limit of None \<Rightarrow> 100 | Some n \<Rightarrow> n)"
  define rs where
    "rs = take (nat n) (limit_cursor n (sort_timestamp_desc (collection_find device c)))"
  from assms(2) have "get_device_data_try c device n = Inr results"
    by (auto simp: get_device_data_def n_def split: sum.splits)
  then have "convert_items rs = Inr results"
    by (auto simp: get_device_data_try_def to_list_def Let_def rs_def split: sum.splits if_splits)
  then have conv: "list_all2 (\<lambda>d item. convert_item d = Inr item) rs results"
    by (rule convert_items_list_all2)
  have sub: "mset rs \<subseteq># mset (docs c)"
    unfolding rs_def by (rule cursor_mset)
  have "set rs \<subseteq> set (collection_find device c)"
    unfolding rs_def limit_cursor_def sort_timestamp_desc_def
    using set_take_subset [of "nat n" "rev (sort_key timestamp_key (collection_find device c))"]
      set_take_subset [of "nat \<bar>n\<bar>" "rev (sort_key timestamp_key (collection_find device c))"]
      set_take_subset [of "nat n"
        "take (nat \<bar>n\<bar>) (rev (sort_key timestamp_key (collection_find device c)))"]
    by (auto split: if_splits)
  then have dev: "d \<in> set (docs c) \<and> map_of d ''deviceId'' = Some (VStr device)"
    if "d \<in> set rs" for d
    using that by (auto simp: collection_find_def)
  have ids: "\<exists>n. map_of d ''_id'' = Some (VObjectId n)
                \<and> map_of item ''_id'' = Some (VStr (str_ObjectId n))"
    if d: "d \<in> set rs" and item: "convert_item d = Inr item" for d item
  proof -
    from convert_item_id [OF item] obtain v where
      v: "map_of d ''_id'' = Some v" "map_of item ''_id'' = Some (py_str v)"
      by blast
    from assms(1) dev [OF d]
    have "case map_of d ''_id'' of Some (VObjectId n) \<Rightarrow> True | _ \<Rightarrow> False"
      by (simp add: generated_ids_def list_all_iff)
    with v(1) obtain n where "v = VObjectId n"
      by (cases v) simp_all
    with v show ?thesis by simp
  qed
  have "list_all2
          (\<lambda>d item. convert_item d = Inr item
             \<and> map_of d ''deviceId'' = Some (VStr device)
             \<and> (\<exists>n. map_of d ''_id'' = Some (VObjectId n)
                    \<and> map_of item ''_id'' = Some (VStr (str_ObjectId n))))
          rs results"
    using conv
  proof (rule list.rel_mono_strong)
    fix d item
    assume "d \<in> set rs" "item \<in> set results" "convert_item d = Inr item"
    then show "convert_item d = Inr item
             \<and> map_of d ''deviceId'' = Some (VStr device)
             \<and> (\<exists>n. map_of d ''_id'' = Some (VObjectId n)
                    \<and> map_of item ''_id'' = Some (VStr (str_ObjectId n)))"
      using dev ids by blast
  qed
  with sub show ?thesis by blast
qed

theorem query_returns_id_as_string_witness:
  "generated_ids two_readings
   \<and> get_device_data two_readings ''sensor-1'' (Some 10)
       = Inr (projr (get_device_data two_readings ''sensor-1'' (Some 10)))
   \<and> map (\<lambda>item. map_of item ''_id'')
        (projr (get_device_data two_readings ''sensor-1'' (Some 10)))
       = [Some (VStr ''000000000000000000000001''), Some (VStr ''000000000000000000000000'')]
   \<and> (\<exists>rs. mset rs \<subseteq># mset (docs two_readings)
          \<and> list_all2
               (\<lambda>d item. convert_item d = Inr item
                  \<and> map_of d ''deviceId'' = Some (VStr ''sensor-1'')
                  \<and> (\<exists>n. map_of d ''_id'' = Some (VObjectId n)
                         \<and> map_of item ''_id'' = Some (VStr (str_ObjectId n))))
               rs (projr (get_device_data two_readings ''sensor-1'' (Some 10))))"
proof -
  have a: "generated_ids two_readings" by code_simp
  have b: "get_device_data two_readings ''sensor-1'' (Some 10)
       = Inr (projr (get_device_data two_readings ''sensor-1'' (Some 10)))"
    by code_simp
  have c: "map (\<lambda>item. map_of item ''_id'')
        (projr (get_device_data two_readings ''sensor-1'' (Some 10)))
       = [Some (VStr ''000000000000000000000001''), Some (VStr ''000000000000000000000000'')]"
    by code_simp
  from query_returns_id_as_string [OF a b] a b c show ?thesis by blast
qed

text \<open>
  Every collection that the two applications build from the empty one has
  store-generated identifiers.
\<close>

lemma generated_ids_insert_one:
  assumes "generated_ids c" and "map_of document ''_id'' = None"
    and "insert_one document c = Inr c'"
  shows "generated_ids c'"
  using assms
  by (auto simp: generated_ids_def insert_one_def Let_def split: if_splits)

lemma generated_ids_insert_sensor_data:
  assumes "generated_ids c" and "insert_sensor_data values_dict data data_type c = Inr (r, c')"
  shows "generated_ids c'"
proof -
  from assms(2) obtain dt where
    "insert_one (AList.update ''data_type'' (VStr data_type)
                  (AList.update ''timestamp'' (VDatetime dt) (dict values_dict data))) c = Inr c'"
    by (auto simp: insert_sensor_data_def Let_def split: sum.splits)
  moreover have "map_of (AList.update ''data_type'' (VStr data_type)
                  (AList.update ''timestamp'' (VDatetime dt) (dict values_dict data))) ''_id'' = None"
    by (simp add: update_conv' dict_def)
  ultimately show ?thesis using assms(1) generated_ids_insert_one by blast
qed

lemma generated_ids_main_receive_try:
  assumes "generated_ids c" and "main_receive_try values_dict data c = Inr (r, c')"
  shows "generated_ids c'"
proof -
  from assms(2) obtain dt where
    "insert_one (AList.update ''timestamp'' (VDatetime dt) (dict values_dict data)) c = Inr c'"
    by (auto simp: main_receive_try_def Let_def split: sum.splits)
  moreover have "map_of (AList.update ''timestamp'' (VDatetime dt) (dict values_dict data)) ''_id''
      = None"
    by (simp add: update_conv' dict_def)
  ultimately show ?thesis using assms(1) generated_ids_insert_one by blast
qed

lemma generated_ids_post_route:
  assumes "generated_ids c"
    and "\<And>r c'. handler data c = Inr (r, c') \<Longrightarrow> generated_ids c'"
  shows "generated_ids (snd (post_route st handler data c))"
  using assms by (auto simp: post_route_def split: sum.splits)

lemma generated_ids_serve:
  assumes "generated_ids c"
  shows "generated_ids (snd (serve r c))"
proof (cases r)
  case (App_main a)
  show ?thesis
  proof (cases a)
    case (POST_traffic_data data)
    show ?thesis unfolding App_main POST_traffic_data serve.simps app_main.simps
      by (rule generated_ids_post_route [OF assms])
         (auto simp: receive_traffic_data_def split: sum.splits
            intro: generated_ids_insert_sensor_data [OF assms])
  next
    case (POST_environmental_data data)
    show ?thesis unfolding App_main POST_environmental_data serve.simps app_main.simps
      by (rule generated_ids_post_route [OF assms])
         (auto simp: receive_environmental_data_def split: sum.splits
            intro: generated_ids_insert_sensor_data [OF assms])
  next
    case (POST_weather_data data)
    show ?thesis unfolding App_main POST_weather_data serve.simps app_main.simps
      by (rule generated_ids_post_route [OF assms])
         (auto simp: receive_weather_data_def split: sum.splits
            intro: generated_ids_insert_sensor_data [OF assms])
  next
    case (POST_airquality_data data)
    show ?thesis unfolding App_main POST_airquality_data serve.simps app_main.simps
      by (rule generated_ids_post_route [OF assms])
         (auto simp: receive_airquality_data_def split: sum.splits
            intro: generated_ids_insert_sensor_data [OF assms])
  next
    case (GET_data device limit)
    then show ?thesis using assms App_main by simp
  qed
next
  case (Main m)
  show ?thesis
  proof (cases m)
    case (main_POST_environmental_data data)
    show ?thesis unfolding Main main_POST_environmental_data serve.simps main.simps
      by (rule generated_ids_post_route [OF assms])
         (auto simp: main_receive_environmental_data_def split: sum.splits
            intro: generated_ids_main_receive_try [OF assms])
  next
    case (main_POST_weather_data data)
    show ?thesis unfolding Main main_POST_weather_data serve.simps main.simps
      by (rule generated_ids_post_route [OF assms])
         (auto simp: main_receive_weather_data_def split: sum.splits
            intro: generated_ids_main_receive_try [OF assms])
  next
    case (main_POST_airquality_data data)
    show ?thesis unfolding Main main_POST_airquality_data serve.simps main.simps
      by (rule generated_ids_post_route [OF assms])
         (auto simp: main_receive_airquality_data_def split: sum.splits
            intro: generated_ids_main_receive_try [OF assms])
  qed
qed

lemma generated_ids_serve_all:
  "generated_ids c \<Longrightarrow> generated_ids (serve_all rs c)"
  by (induction rs arbitrary: c) (simp_all add: generated_ids_serve)

lemma generated_ids_reachable: "generated_ids (serve_all rs empty_collection)"
  by (rule generated_ids_serve_all) (simp add: generated_ids_def empty_collection_def)

end
